theory Spec2Isabelle
  imports Complex_Main
begin

section \<open>The Student and Teacher resource handlers\<close>

text \<open>
  The two controllers (students and teachers) are thin adapters between an HTTP-like
  request and a persistence collaborator (the object mapper \<open>db\<close>). Each handler is an
  asynchronous function that either sends one response or rejects with the error that
  escaped it. The embedding below follows the source statement by statement:
  \<^item> the values the handlers compute themselves (\<open>parseInt\<close>, \<open>||\<close>, \<open>split\<close>,
    \<open>find\<close>, \<open>Math.ceil\<close>) are HOL functions;
  \<^item> the persistence collaborator is a parameter: a record of operations over an
    arbitrary store, each answering with a value or with an error message;
  \<^item> every call to the collaborator is recorded, with its arguments, in a log, so that
    "what is passed to the persistence layer" is a value theorems can talk about;
  \<^item> \<open>try\<close>/\<open>catch\<close> is a case distinction on the collaborator's answer; an error
    outside a \<open>try\<close> block makes the handler reject.
\<close>

subsection \<open>Numbers and strings of the host language\<close>

text \<open>
  The numbers the handlers compute are the results of \<open>parseInt\<close> and of \<open>count()\<close>:
  integers, or \<open>NaN\<close>. They are modelled as mathematical integers; the rounding of
  integers beyond \<open>2^53\<close> to the nearest double is not part of the model, and the two
  zeros of the host language (both falsy, both equal) are the one integer \<open>0\<close>.
  Strings are lists of 8-bit characters.
\<close>

datatype jsnum = NaN | Num int

text \<open>\<open>StrWhiteSpaceChar\<close>, for the characters a \<open>char\<close> can hold: TAB, LF, VT, FF, CR,
  SP and NBSP.\<close>

definition isWhiteSpace :: "char \<Rightarrow> bool" where
  "isWhiteSpace c \<longleftrightarrow> (of_char c :: nat) \<in> {9, 10, 11, 12, 13, 32, 160}"

text \<open>The value of a digit character: \<open>0\<close>-\<open>9\<close>, then \<open>a\<close>-\<open>z\<close> and \<open>A\<close>-\<open>Z\<close> for 10 to 35.\<close>

definition digitVal :: "char \<Rightarrow> nat option" where
  "digitVal c =
     (let n = (of_char c :: nat)
      in if 48 \<le> n \<and> n \<le> 57 then Some (n - 48)
         else if 97 \<le> n \<and> n \<le> 122 then Some (n - 87)
         else if 65 \<le> n \<and> n \<le> 90 then Some (n - 55)
         else None)"

definition isRadixDigit :: "nat \<Rightarrow> char \<Rightarrow> bool" where
  "isRadixDigit R c = (case digitVal c of None \<Rightarrow> False | Some d \<Rightarrow> d < R)"

definition digitsValue :: "nat \<Rightarrow> string \<Rightarrow> nat" where
  "digitsValue R Z =
     foldl (\<lambda>acc c. acc * R + (case digitVal c of None \<Rightarrow> 0 | Some d \<Rightarrow> d)) 0 Z"

text \<open>
  \<open>parseInt(string)\<close> with no radix argument, as the language defines it: leading white
  space is skipped, one sign is read, a \<open>0x\<close>/\<open>0X\<close> prefix selects radix 16, and the
  longest prefix of digits of the radix is the number; no digit at all is \<open>NaN\<close>. What
  follows the digits is ignored.
\<close>

definition parseInt :: "string \<Rightarrow> jsnum" where
  "parseInt inputString =
     (let S = dropWhile isWhiteSpace inputString;
          sign = (case S of c # _ \<Rightarrow> if c = CHR ''-'' then - 1 else 1 | [] \<Rightarrow> (1::int));
          S1 = (case S of c # cs \<Rightarrow> if c = CHR ''+'' \<or> c = CHR ''-'' then cs else S | [] \<Rightarrow> S);
          hex = (take 2 S1 = ''0x'' \<or> take 2 S1 = ''0X'');
          R = (if hex then 16 else 10);
          S2 = (if hex then drop 2 S1 else S1);
          Z = takeWhile (isRadixDigit R) S2
      in if Z = [] then NaN else Num (sign * int (digitsValue R Z)))"

text \<open>\<open>ToString\<close> of a query parameter: an absent parameter is \<open>undefined\<close>.\<close>

fun ToString :: "string option \<Rightarrow> string" where
  "ToString None = ''undefined''"
| "ToString (Some s) = s"

text \<open>\<open>a || d\<close> for a number \<open>a\<close>: \<open>NaN\<close> and \<open>0\<close> are falsy.\<close>

fun or_num :: "jsnum \<Rightarrow> int \<Rightarrow> int" where
  "or_num NaN d = d"
| "or_num (Num n) d = (if n = 0 then d else n)"

text \<open>\<open>a || d\<close> for a query parameter \<open>a\<close>: \<open>undefined\<close> and the empty string are falsy.\<close>

fun or_str :: "string option \<Rightarrow> string \<Rightarrow> string" where
  "or_str None d = d"
| "or_str (Some s) d = (if s = [] then d else s)"

text \<open>\<open>s.split(',')\<close>: the pieces between the commas, empty pieces included; the empty
  string has the one piece \<open>''\<close>.\<close>

fun split_from :: "string \<Rightarrow> string \<Rightarrow> string list" where
  "split_from cur [] = [rev cur]"
| "split_from cur (c # cs) =
     (if c = CHR '','' then rev cur # split_from [] cs else split_from (c # cur) cs)"

definition split_comma :: "string \<Rightarrow> string list" where
  "split_comma s = split_from [] s"

text \<open>\<open>Math.ceil\<close>.\<close>

definition Math_ceil :: "real \<Rightarrow> int" where
  "Math_ceil x = \<lceil>x\<rceil>"

subsection \<open>Requests, responses and the persistence collaborator\<close>

datatype model = Student | Teacher | Course

datatype json = JNull | JBool bool | JNum int | JStr string

type_synonym payload = "(string \<times> json) list"

text \<open>\<open>req.query\<close>: each parameter is absent or a string.\<close>

record query =
  q_page :: "string option"
  q_limit :: "string option"
  q_sortBy :: "string option"
  q_order :: "string option"
  q_populate :: "string option"

record request =
  params_id :: string
  query :: query
  body :: payload

text \<open>The options object of \<open>findAll\<close>.\<close>

record findAllOptions =
  include_list :: "model list"
  limit :: int
  offset :: int
  order :: "(string \<times> string) list"

text \<open>
  The persistence collaborator over a store \<open>'st\<close> and record instances \<open>'r\<close>. Each
  operation answers \<open>Inr\<close> a value or \<open>Inl\<close> the message of the error it raises.
  \<open>findAll\<close>, \<open>findByPk\<close> and \<open>count\<close> read the store; \<open>create\<close>, \<open>update\<close> and
  \<open>destroy\<close> may change it (also when they fail). The second argument of \<open>findByPk\<close>
  is the \<open>include\<close> option, when one is given.
\<close>

record ('st, 'r) persistence =
  create :: "model \<Rightarrow> payload \<Rightarrow> 'st \<Rightarrow> (string + 'r) \<times> 'st"
  findAll :: "model \<Rightarrow> findAllOptions \<Rightarrow> 'st \<Rightarrow> string + 'r list"
  findByPk :: "model \<Rightarrow> string \<Rightarrow> model option \<Rightarrow> 'st \<Rightarrow> string + 'r option"
  update :: "'r \<Rightarrow> payload \<Rightarrow> 'st \<Rightarrow> (string + 'r) \<times> 'st"
  destroy :: "'r \<Rightarrow> 'st \<Rightarrow> (string + unit) \<times> 'st"
  count :: "model \<Rightarrow> 'st \<Rightarrow> string + nat"

datatype 'r call =
    Create model payload
  | FindAll model findAllOptions
  | FindByPk model string "model option"
  | Update 'r payload
  | Destroy 'r
  | Count model

text \<open>The world a handler runs in: the store, and the calls made so far.\<close>

record ('st, 'r) world =
  store :: 'st
  calls :: "'r call list"

definition db_create ::
  "('st, 'r) persistence \<Rightarrow> model \<Rightarrow> payload \<Rightarrow> ('st, 'r) world \<Rightarrow> (string + 'r) \<times> ('st, 'r) world" where
  "db_create P m b w =
     (case create P m b (store w) of
        (a, s') \<Rightarrow> (a, \<lparr>store = s', calls = calls w @ [Create m b]\<rparr>))"

definition db_findAll ::
  "('st, 'r) persistence \<Rightarrow> model \<Rightarrow> findAllOptions \<Rightarrow> ('st, 'r) world \<Rightarrow> (string + 'r list) \<times> ('st, 'r) world" where
  "db_findAll P m opts w =
     (findAll P m opts (store w), \<lparr>store = store w, calls = calls w @ [FindAll m opts]\<rparr>)"

definition db_findByPk ::
  "('st, 'r) persistence \<Rightarrow> model \<Rightarrow> string \<Rightarrow> model option \<Rightarrow> ('st, 'r) world \<Rightarrow> (string + 'r option) \<times> ('st, 'r) world" where
  "db_findByPk P m i inc w =
     (findByPk P m i inc (store w), \<lparr>store = store w, calls = calls w @ [FindByPk m i inc]\<rparr>)"

definition db_update ::
  "('st, 'r) persistence \<Rightarrow> 'r \<Rightarrow> payload \<Rightarrow> ('st, 'r) world \<Rightarrow> (string + 'r) \<times> ('st, 'r) world" where
  "db_update P r b w =
     (case update P r b (store w) of
        (a, s') \<Rightarrow> (a, \<lparr>store = s', calls = calls w @ [Update r b]\<rparr>))"

definition db_destroy ::
  "('st, 'r) persistence \<Rightarrow> 'r \<Rightarrow> ('st, 'r) world \<Rightarrow> (string + unit) \<times> ('st, 'r) world" where
  "db_destroy P r w =
     (case destroy P r (store w) of
        (a, s') \<Rightarrow> (a, \<lparr>store = s', calls = calls w @ [Destroy r]\<rparr>))"

definition db_count ::
  "('st, 'r) persistence \<Rightarrow> model \<Rightarrow> ('st, 'r) world \<Rightarrow> (string + nat) \<times> ('st, 'r) world" where
  "db_count P m w =
     (count P m (store w), \<lparr>store = store w, calls = calls w @ [Count m]\<rparr>)"

text \<open>The \<open>meta\<close> object of a list response, and the JSON bodies the handlers send.\<close>

record meta =
  totalItems :: nat
  page :: int
  totalPages :: int

datatype 'r reply =
    Instance 'r
  | Listing meta "'r list"
  | Message string
  | Error string

record 'r response =
  status :: nat
  json :: "'r reply"

text \<open>A handler sends one response, or rejects with the error that escaped it.\<close>

datatype 'r outcome = Responded "'r response" | Rejected string

subsection \<open>The student controller\<close>

text \<open>
  An instance is mutated in place by \<open>update\<close>; the model has \<open>update\<close> return the
  instance as it is afterwards, and the handler sends that one. \<open>err.message\<close> is the
  message the collaborator failed with. A response sent with \<open>res.json\<close> alone has
  status 200.
\<close>

definition createStudent ::
  "('st, 'r) persistence \<Rightarrow> request \<Rightarrow> ('st, 'r) world \<Rightarrow> 'r outcome \<times> ('st, 'r) world" where
  "createStudent P req w =
     (case db_create P Student (body req) w of
        (Inr student, w1) \<Rightarrow> (Responded \<lparr>status = 201, json = Instance student\<rparr>, w1)
      | (Inl err, w1) \<Rightarrow> (Responded \<lparr>status = 500, json = Error err\<rparr>, w1))"

text \<open>
  \<open>getAllStudents\<close> reads \<open>limit\<close>, \<open>page\<close>, \<open>sortBy\<close> and \<open>order\<close>, awaits
  \<open>db.Course.count()\<close> before the \<open>try\<close> block, builds the include list from
  \<open>populate\<close> and then, inside \<open>try\<close>, awaits \<open>db.Student.findAll\<close>.
  \<open>populate.find(e => e === 'Course')\<close> yields the element found, which is tested for
  truthiness (a string is truthy when it is not empty). The constant \<open>total\<close> of the
  source is \<open>total'\<close> here. The effective limit is never zero (see
  \<open>effective_limit_nonzero\<close> below), so the division is the one of the source.
\<close>

definition getAllStudents ::
  "('st, 'r) persistence \<Rightarrow> request \<Rightarrow> ('st, 'r) world \<Rightarrow> 'r outcome \<times> ('st, 'r) world" where
  "getAllStudents P req w =
     (let limit = or_num (parseInt (ToString (q_limit (query req)))) 10;
          page = or_num (parseInt (ToString (q_page (query req)))) 1;
          sortBy = or_str (q_sortBy (query req)) ''id'';
          order = or_str (q_order (query req)) ''asc''
      in case db_count P Course w of
           (Inl err, w1) \<Rightarrow> (Rejected err, w1)
         | (Inr total', w1) \<Rightarrow>
             (let populate = (case q_populate (query req) of
                                None \<Rightarrow> [] | Some s \<Rightarrow> split_comma s);
                  includes = (case find (\<lambda>e. e = ''Course'') populate of
                                None \<Rightarrow> []
                              | Some e \<Rightarrow> if e \<noteq> [] then [Course] else [])
              in case db_findAll P Student
                        \<lparr>include_list = includes, limit = limit,
                         offset = (page - 1) * limit, order = [(sortBy, order)]\<rparr> w1 of
                   (Inr students, w2) \<Rightarrow>
                     (Responded \<lparr>status = 200,
                        json = Listing
                          \<lparr>totalItems = total', page = page,
                           totalPages = Math_ceil (real total' / real_of_int limit)\<rparr>
                          students\<rparr>, w2)
                 | (Inl err, w2) \<Rightarrow> (Responded \<lparr>status = 500, json = Error err\<rparr>, w2)))"

definition getStudentById ::
  "('st, 'r) persistence \<Rightarrow> request \<Rightarrow> ('st, 'r) world \<Rightarrow> 'r outcome \<times> ('st, 'r) world" where
  "getStudentById P req w =
     (case db_findByPk P Student (params_id req) (Some Course) w of
        (Inr None, w1) \<Rightarrow> (Responded \<lparr>status = 404, json = Message ''Not found''\<rparr>, w1)
      | (Inr (Some student), w1) \<Rightarrow> (Responded \<lparr>status = 200, json = Instance student\<rparr>, w1)
      | (Inl err, w1) \<Rightarrow> (Responded \<lparr>status = 500, json = Error err\<rparr>, w1))"

definition updateStudent ::
  "('st, 'r) persistence \<Rightarrow> request \<Rightarrow> ('st, 'r) world \<Rightarrow> 'r outcome \<times> ('st, 'r) world" where
  "updateStudent P req w =
     (case db_findByPk P Student (params_id req) None w of
        (Inr None, w1) \<Rightarrow> (Responded \<lparr>status = 404, json = Message ''Not found''\<rparr>, w1)
      | (Inr (Some student), w1) \<Rightarrow>
          (case db_update P student (body req) w1 of
             (Inr student', w2) \<Rightarrow> (Responded \<lparr>status = 200, json = Instance student'\<rparr>, w2)
           | (Inl err, w2) \<Rightarrow> (Responded \<lparr>status = 500, json = Error err\<rparr>, w2))
      | (Inl err, w1) \<Rightarrow> (Responded \<lparr>status = 500, json = Error err\<rparr>, w1))"

definition deleteStudent ::
  "('st, 'r) persistence \<Rightarrow> request \<Rightarrow> ('st, 'r) world \<Rightarrow> 'r outcome \<times> ('st, 'r) world" where
  "deleteStudent P req w =
     (case db_findByPk P Student (params_id req) None w of
        (Inr None, w1) \<Rightarrow> (Responded \<lparr>status = 404, json = Message ''Not found''\<rparr>, w1)
      | (Inr (Some student), w1) \<Rightarrow>
          (case db_destroy P student w1 of
             (Inr _, w2) \<Rightarrow> (Responded \<lparr>status = 200, json = Message ''Deleted''\<rparr>, w2)
           | (Inl err, w2) \<Rightarrow> (Responded \<lparr>status = 500, json = Error err\<rparr>, w2))
      | (Inl err, w1) \<Rightarrow> (Responded \<lparr>status = 500, json = Error err\<rparr>, w1))"

subsection \<open>The teacher controller\<close>

definition createTeacher ::
  "('st, 'r) persistence \<Rightarrow> request \<Rightarrow> ('st, 'r) world \<Rightarrow> 'r outcome \<times> ('st, 'r) world" where
  "createTeacher P req w =
     (case db_create P Teacher (body req) w of
        (Inr teacher, w1) \<Rightarrow> (Responded \<lparr>status = 201, json = Instance teacher\<rparr>, w1)
      | (Inl err, w1) \<Rightarrow> (Responded \<lparr>status = 500, json = Error err\<rparr>, w1))"

text \<open>\<open>getAllTeachers\<close> builds the include list first and awaits the count right before
  the \<open>try\<close> block.\<close>

definition getAllTeachers ::
  "('st, 'r) persistence \<Rightarrow> request \<Rightarrow> ('st, 'r) world \<Rightarrow> 'r outcome \<times> ('st, 'r) world" where
  "getAllTeachers P req w =
     (let limit = or_num (parseInt (ToString (q_limit (query req)))) 10;
          page = or_num (parseInt (ToString (q_page (query req)))) 1;
          sortBy = or_str (q_sortBy (query req)) ''id'';
          order = or_str (q_order (query req)) ''asc'';
          populate = (case q_populate (query req) of
                        None \<Rightarrow> [] | Some s \<Rightarrow> split_comma s);
          includes = (case find (\<lambda>e. e = ''Course'') populate of
                        None \<Rightarrow> []
                      | Some e \<Rightarrow> if e \<noteq> [] then [Course] else [])
      in case db_count P Course w of
           (Inl err, w1) \<Rightarrow> (Rejected err, w1)
         | (Inr total', w1) \<Rightarrow>
             (case db_findAll P Teacher
                     \<lparr>include_list = includes, limit = limit,
                      offset = (page - 1) * limit, order = [(sortBy, order)]\<rparr> w1 of
                (Inr teachers, w2) \<Rightarrow>
                  (Responded \<lparr>status = 200,
                     json = Listing
                       \<lparr>totalItems = total', page = page,
                        totalPages = Math_ceil (real total' / real_of_int limit)\<rparr>
                       teachers\<rparr>, w2)
              | (Inl err, w2) \<Rightarrow> (Responded \<lparr>status = 500, json = Error err\<rparr>, w2)))"

definition getTeacherById ::
  "('st, 'r) persistence \<Rightarrow> request \<Rightarrow> ('st, 'r) world \<Rightarrow> 'r outcome \<times> ('st, 'r) world" where
  "getTeacherById P req w =
     (case db_findByPk P Teacher (params_id req) (Some Course) w of
        (Inr None, w1) \<Rightarrow> (Responded \<lparr>status = 404, json = Message ''Not found''\<rparr>, w1)
      | (Inr (Some teacher), w1) \<Rightarrow> (Responded \<lparr>status = 200, json = Instance teacher\<rparr>, w1)
      | (Inl err, w1) \<Rightarrow> (Responded \<lparr>status = 500, json = Error err\<rparr>, w1))"

definition updateTeacher ::
  "('st, 'r) persistence \<Rightarrow> request \<Rightarrow> ('st, 'r) world \<Rightarrow> 'r outcome \<times> ('st, 'r) world" where
  "updateTeacher P req w =
     (case db_findByPk P Teacher (params_id req) None w of
        (Inr None, w1) \<Rightarrow> (Responded \<lparr>status = 404, json = Message ''Not found''\<rparr>, w1)
      | (Inr (Some teacher), w1) \<Rightarrow>
          (case db_update P teacher (body req) w1 of
             (Inr teacher', w2) \<Rightarrow> (Responded \<lparr>status = 200, json = Instance teacher'\<rparr>, w2)
           | (Inl err, w2) \<Rightarrow> (Responded \<lparr>status = 500, json = Error err\<rparr>, w2))
      | (Inl err, w1) \<Rightarrow> (Responded \<lparr>status = 500, json = Error err\<rparr>, w1))"

definition deleteTeacher ::
  "('st, 'r) persistence \<Rightarrow> request \<Rightarrow> ('st, 'r) world \<Rightarrow> 'r outcome \<times> ('st, 'r) world" where
  "deleteTeacher P req w =
     (case db_findByPk P Teacher (params_id req) None w of
        (Inr None, w1) \<Rightarrow> (Responded \<lparr>status = 404, json = Message ''Not found''\<rparr>, w1)
      | (Inr (Some teacher), w1) \<Rightarrow>
          (case db_destroy P teacher w1 of
             (Inr _, w2) \<Rightarrow> (Responded \<lparr>status = 200, json = Message ''Deleted''\<rparr>, w2)
           | (Inl err, w2) \<Rightarrow> (Responded \<lparr>status = 500, json = Error err\<rparr>, w2))
      | (Inl err, w1) \<Rightarrow> (Responded \<lparr>status = 500, json = Error err\<rparr>, w1))"

subsection \<open>Notions the properties are stated with\<close>

text \<open>The calls a handler makes to the collaborator when it is run on a store \<open>s\<close>.\<close>

definition calls_of ::
  "(('st, 'r) world \<Rightarrow> 'r outcome \<times> ('st, 'r) world) \<Rightarrow> 'st \<Rightarrow> 'r call list" where
  "calls_of h s = calls (snd (h \<lparr>store = s, calls = []\<rparr>))"

text \<open>The effective limit and page of a list request: the constants \<open>limit\<close> and
  \<open>page\<close> of both list handlers.\<close>

definition effective_limit :: "request \<Rightarrow> int" where
  "effective_limit req = or_num (parseInt (ToString (q_limit (query req)))) 10"

definition effective_page :: "request \<Rightarrow> int" where
  "effective_page req = or_num (parseInt (ToString (q_page (query req)))) 1"

text \<open>The populate parameter is present and, split on commas, has the element
  \<open>Course\<close>.\<close>

definition populate_names_course :: "request \<Rightarrow> bool" where
  "populate_names_course req =
     (case q_populate (query req) of
        None \<Rightarrow> False
      | Some v \<Rightarrow> ''Course'' \<in> set (split_comma v))"

text \<open>A query parameter does not parse: \<open>parseInt\<close> reads no integer from it. (A
  text with a leading integer, such as \<open>12abc\<close>, does parse.)\<close>

definition non_numeric :: "string option \<Rightarrow> bool" where
  "non_numeric v \<longleftrightarrow> parseInt (ToString v) = NaN"

definition decimal_digit :: "char \<Rightarrow> bool" where
  "decimal_digit c \<longleftrightarrow> 48 \<le> (of_char c :: nat) \<and> (of_char c :: nat) \<le> 57"

text \<open>A text is numeric, in the plain sense of the word, when it is one or more
  decimal digits, with at most one sign in front, and nothing else.\<close>

definition numeric_text :: "string \<Rightarrow> bool" where
  "numeric_text s =
     (case s of
        [] \<Rightarrow> False
      | c # cs \<Rightarrow>
          if c = CHR ''+'' \<or> c = CHR ''-'' then cs \<noteq> [] \<and> list_all decimal_digit cs
          else list_all decimal_digit s)"

text \<open>A collaborator that cannot be reached: every operation fails with the same
  message and leaves the store alone.\<close>

definition unreachable_db :: "string \<Rightarrow> ('st, 'r) persistence" where
  "unreachable_db msg =
     \<lparr>create = (\<lambda>m b s. (Inl msg, s)),
      findAll = (\<lambda>m opts s. Inl msg),
      findByPk = (\<lambda>m i inc s. Inl msg),
      update = (\<lambda>r b s. (Inl msg, s)),
      destroy = (\<lambda>r s. (Inl msg, s)),
      count = (\<lambda>m s. Inl msg)\<rparr>"

text \<open>A request with no query parameter, an empty body and the given id.\<close>

definition plain_request :: "string \<Rightarrow> request" where
  "plain_request i =
     \<lparr>params_id = i,
      query = \<lparr>q_page = None, q_limit = None, q_sortBy = None, q_order = None,
               q_populate = None\<rparr>,
      body = []\<rparr>"

text \<open>A collaborator with fixed answers to the three reading operations: it counts
  \<open>courses\<close> records of the Course model and \<open>others\<close> of any other, and answers
  every \<open>findAll\<close> with \<open>rows\<close> and every \<open>findByPk\<close> with \<open>found\<close>. Its writing
  operations fail.\<close>

definition answering_db :: "nat \<Rightarrow> nat \<Rightarrow> 'r list \<Rightarrow> 'r option \<Rightarrow> ('st, 'r) persistence" where
  "answering_db courses others rows found =
     \<lparr>create = (\<lambda>m b s. (Inl ''read only'', s)),
      findAll = (\<lambda>m opts s. Inr rows),
      findByPk = (\<lambda>m i inc s. Inr found),
      update = (\<lambda>r b s. (Inl ''read only'', s)),
      destroy = (\<lambda>r s. (Inl ''read only'', s)),
      count = (\<lambda>m s. Inr (if m = Course then courses else others))\<rparr>"

subsection \<open>The record store behind lookup and update\<close>

text \<open>
  Modelled from the spec: the model definitions and the object mapper behind
  \<open>findByPk\<close> and \<open>instance.update\<close> are not among the sources. The spec gives a
  record an identity \<open>id\<close>, generated, immutable once assigned and unique within its
  entity set, and attributes; an update applies a partial patch, under which only the
  supplied fields change. A table is a list of rows, a row an id and its attributes.
  How the text of a path segment denotes an id is left to a parameter \<open>resolve\<close>.
\<close>

record row =
  pk :: nat
  attrs :: payload

type_synonym tables = "model \<Rightarrow> row list"

record inst =
  of_model :: model
  stored :: row

text \<open>Modelled from the spec: setting one attribute replaces its value, or adds the
  attribute when the record has none of that name.\<close>

fun set_attr :: "string \<Rightarrow> json \<Rightarrow> payload \<Rightarrow> payload" where
  "set_attr k v [] = [(k, v)]"
| "set_attr k v ((k', v') # fs) =
     (if k' = k then (k, v) # fs else (k', v') # set_attr k v fs)"

text \<open>Modelled from the spec: a patch is applied field by field, in the order of the
  body; the identity is immutable, so a field \<open>id\<close> of the patch is not applied.\<close>

fun apply_patch :: "payload \<Rightarrow> payload \<Rightarrow> payload" where
  "apply_patch fs [] = fs"
| "apply_patch fs ((k, v) # ps) =
     apply_patch (if k = ''id'' then fs else set_attr k v fs) ps"

text \<open>Modelled from the spec: a lookup without joins finds the row with the id the
  path segment denotes, if there is one.\<close>

definition store_lookup ::
  "(string \<Rightarrow> nat option) \<Rightarrow> model \<Rightarrow> string \<Rightarrow> tables \<Rightarrow> string + inst option" where
  "store_lookup resolve m i s =
     Inr (case resolve i of
            None \<Rightarrow> None
          | Some k \<Rightarrow>
              (case find (\<lambda>x. pk x = k) (s m) of
                 None \<Rightarrow> None
               | Some r \<Rightarrow> Some \<lparr>of_model = m, stored = r\<rparr>))"

text \<open>Modelled from the spec: \<open>instance.update(patch)\<close> applies the patch to the
  instance and persists it in place of the stored row of the same id.\<close>

definition store_update :: "inst \<Rightarrow> payload \<Rightarrow> tables \<Rightarrow> (string + inst) \<times> tables" where
  "store_update r b s =
     (let r' = \<lparr>pk = pk (stored r), attrs = apply_patch (attrs (stored r)) b\<rparr>
      in (Inr \<lparr>of_model = of_model r, stored = r'\<rparr>,
          s(of_model r := map (\<lambda>x. if pk x = pk r' then r' else x) (s (of_model r)))))"

text \<open>Modelled from the spec: a collaborator whose lookups without joins and whose
  updates are those of the store; what the store does not model fails.\<close>

definition store_db :: "(string \<Rightarrow> nat option) \<Rightarrow> (tables, inst) persistence" where
  "store_db resolve =
     \<lparr>create = (\<lambda>m b s. (Inl ''not modelled'', s)),
      findAll = (\<lambda>m opts s. Inl ''not modelled''),
      findByPk = (\<lambda>m i inc s. case inc of
                     None \<Rightarrow> store_lookup resolve m i s
                   | Some j \<Rightarrow> Inl ''not modelled''),
      update = store_update,
      destroy = (\<lambda>r s. (Inl ''not modelled'', s)),
      count = (\<lambda>m s. Inl ''not modelled'')\<rparr>"

text \<open>A list request with the given page, limit and populate parameters and no sort
  parameters.\<close>

definition list_request :: "string option \<Rightarrow> string option \<Rightarrow> string option \<Rightarrow> request" where
  "list_request pg lm pop =
     \<lparr>params_id = [],
      query = \<lparr>q_page = pg, q_limit = lm, q_sortBy = None, q_order = None,
               q_populate = pop\<rparr>,
      body = []\<rparr>"

section \<open>Properties\<close>

subsection \<open>What the list handlers do, in one equation each\<close>

lemma find_course:
  "(case find (\<lambda>e. e = ''Course'') xs of
      None \<Rightarrow> []
    | Some e \<Rightarrow> if e \<noteq> [] then [Course] else [])
   = (if ''Course'' \<in> set xs then [Course] else [])"
  by (induction xs) auto

lemma includes_eq:
  "(case find (\<lambda>e. e = ''Course'')
          (case q_populate (query req) of None \<Rightarrow> [] | Some s \<Rightarrow> split_comma s) of
      None \<Rightarrow> []
    | Some e \<Rightarrow> if e \<noteq> [] then [Course] else [])
   = (if populate_names_course req then [Course] else [])"
  unfolding find_course by (simp add: populate_names_course_def split: option.splits)

lemma getAllStudents_run:
  "getAllStudents P req w =
     (case count P Course (store w) of
        Inl err \<Rightarrow> (Rejected err, \<lparr>store = store w, calls = calls w @ [Count Course]\<rparr>)
      | Inr n \<Rightarrow>
          (let opts = \<lparr>include_list = (if populate_names_course req then [Course] else []),
                       limit = effective_limit req,
                       offset = (effective_page req - 1) * effective_limit req,
                       order = [(or_str (q_sortBy (query req)) ''id'',
                                 or_str (q_order (query req)) ''asc'')]\<rparr>;
               w2 = \<lparr>store = store w, calls = calls w @ [Count Course, FindAll Student opts]\<rparr>
           in case findAll P Student opts (store w) of
                Inr rows \<Rightarrow>
                  (Responded \<lparr>status = 200,
                     json = Listing \<lparr>totalItems = n, page = effective_page req,
                              totalPages = \<lceil>real n / real_of_int (effective_limit req)\<rceil>\<rparr> rows\<rparr>, w2)
              | Inl err \<Rightarrow> (Responded \<lparr>status = 500, json = Error err\<rparr>, w2)))"
  unfolding getAllStudents_def Let_def includes_eq
  by (simp add: db_count_def db_findAll_def effective_limit_def effective_page_def Math_ceil_def
        split: sum.splits)

lemma getAllTeachers_run:
  "getAllTeachers P req w =
     (case count P Course (store w) of
        Inl err \<Rightarrow> (Rejected err, \<lparr>store = store w, calls = calls w @ [Count Course]\<rparr>)
      | Inr n \<Rightarrow>
          (let opts = \<lparr>include_list = (if populate_names_course req then [Course] else []),
                       limit = effective_limit req,
                       offset = (effective_page req - 1) * effective_limit req,
                       order = [(or_str (q_sortBy (query req)) ''id'',
                                 or_str (q_order (query req)) ''asc'')]\<rparr>;
               w2 = \<lparr>store = store w, calls = calls w @ [Count Course, FindAll Teacher opts]\<rparr>
           in case findAll P Teacher opts (store w) of
                Inr rows \<Rightarrow>
                  (Responded \<lparr>status = 200,
                     json = Listing \<lparr>totalItems = n, page = effective_page req,
                              totalPages = \<lceil>real n / real_of_int (effective_limit req)\<rceil>\<rparr> rows\<rparr>, w2)
              | Inl err \<Rightarrow> (Responded \<lparr>status = 500, json = Error err\<rparr>, w2)))"
  unfolding getAllTeachers_def Let_def includes_eq
  by (simp add: db_count_def db_findAll_def effective_limit_def effective_page_def Math_ceil_def
        split: sum.splits)

text \<open>Every \<open>findAll\<close> a list handler issues has the same, fully determined options.\<close>

lemma findAll_calls_students:
  assumes "FindAll m opts \<in> set (calls_of (getAllStudents P req) s)"
  shows "m = Student \<and> opts =
           \<lparr>include_list = (if populate_names_course req then [Course] else []),
            limit = effective_limit req,
            offset = (effective_page req - 1) * effective_limit req,
            order = [(or_str (q_sortBy (query req)) ''id'',
                      or_str (q_order (query req)) ''asc'')]\<rparr>"
  using assms unfolding calls_of_def getAllStudents_run
  by (auto simp: Let_def split: sum.splits)

lemma findAll_calls_teachers:
  assumes "FindAll m opts \<in> set (calls_of (getAllTeachers P req) s)"
  shows "m = Teacher \<and> opts =
           \<lparr>include_list = (if populate_names_course req then [Course] else []),
            limit = effective_limit req,
            offset = (effective_page req - 1) * effective_limit req,
            order = [(or_str (q_sortBy (query req)) ''id'',
                      or_str (q_order (query req)) ''asc'')]\<rparr>"
  using assms unfolding calls_of_def getAllTeachers_run
  by (auto simp: Let_def split: sum.splits)

text \<open>Once the count has succeeded, a list handler does issue its \<open>findAll\<close>.\<close>

lemma findAll_issued:
  assumes "count P Course s = Inr n"
  shows "(\<exists>opts. calls_of (getAllStudents P req) s = [Count Course, FindAll Student opts]) \<and>
         (\<exists>opts. calls_of (getAllTeachers P req) s = [Count Course, FindAll Teacher opts])"
  using assms
  by (simp add: calls_of_def getAllStudents_run getAllTeachers_run Let_def split: sum.splits)

text \<open>The effective limit is never zero, so \<open>total / limit\<close> never divides by zero.\<close>

lemma effective_limit_nonzero: "effective_limit req \<noteq> 0"
  by (cases "parseInt (ToString (q_limit (query req)))") (simp_all add: effective_limit_def)

lemma effective_page_nonzero: "effective_page req \<noteq> 0"
  by (cases "parseInt (ToString (q_page (query req)))") (simp_all add: effective_page_def)

subsection \<open>Facts about \<open>parseInt\<close>\<close>

lemma parseInt_undefined: "parseInt ''undefined'' = NaN"
  by code_simp


lemma parseInt_1: "parseInt ''1'' = Num 1"
  by code_simp

lemma parseInt_10: "parseInt ''10'' = Num 10"
  by code_simp

lemma non_numeric_absent: "non_numeric None"
  by (simp add: non_numeric_def parseInt_undefined)

lemma radix10_digit_is_decimal: "isRadixDigit 10 c \<Longrightarrow> decimal_digit c"
  by (auto simp: isRadixDigit_def digitVal_def decimal_digit_def Let_def
        split: option.splits if_splits)

lemma zero_is_decimal: "decimal_digit CHR ''0''"
  by (simp add: decimal_digit_def)

text \<open>A string with no decimal digit in it does not parse: the natural case of a
  non-numeric parameter.\<close>

lemma parseInt_no_digit:
  assumes "\<forall>c \<in> set s. \<not> decimal_digit c"
  shows "parseInt s = NaN"
proof -
  let ?S = "dropWhile isWhiteSpace s"
  let ?S1 = "case ?S of c # cs \<Rightarrow> if c = CHR ''+'' \<or> c = CHR ''-'' then cs else ?S | [] \<Rightarrow> ?S"
  have "set ?S \<subseteq> set s"
    by (auto dest: set_dropWhileD)
  moreover have "set ?S1 \<subseteq> set ?S"
    by (auto split: list.splits)
  ultimately have none: "\<forall>c \<in> set ?S1. \<not> decimal_digit c"
    using assms by blast
  have nohex: "\<not> (take 2 ?S1 = ''0x'' \<or> take 2 ?S1 = ''0X'')"
  proof
    assume "take 2 ?S1 = ''0x'' \<or> take 2 ?S1 = ''0X''"
    then have "CHR ''0'' \<in> set (take 2 ?S1)" by auto
    then have "CHR ''0'' \<in> set ?S1" by (rule in_set_takeD)
    with none zero_is_decimal show False by blast
  qed
  have "takeWhile (isRadixDigit 10) ?S1 = []"
    using none radix10_digit_is_decimal by (cases ?S1) auto
  with nohex show ?thesis
    unfolding parseInt_def Let_def by simp
qed

lemma no_digit_non_numeric:
  "\<forall>c \<in> set s. \<not> decimal_digit c \<Longrightarrow> non_numeric (Some s)"
  by (simp add: non_numeric_def parseInt_no_digit)

subsection \<open>Facts about the record store\<close>

lemma map_of_set_attr: "map_of (set_attr k v fs) = (map_of fs)(k \<mapsto> v)"
  by (induction fs) (auto simp: fun_eq_iff)

lemma apply_patch_other:
  "f \<notin> fst ` set ps \<Longrightarrow> map_of (apply_patch fs ps) f = map_of fs f"
  by (induction fs ps rule: apply_patch.induct) (auto simp: map_of_set_attr)

lemma apply_patch_named:
  "f \<noteq> ''id'' \<Longrightarrow> map_of (rev ps) f = Some v \<Longrightarrow> map_of (apply_patch fs ps) f = Some v"
proof (induction fs ps rule: apply_patch.induct)
  case (1 fs)
  then show ?case by simp
next
  case (2 fs k v' ps)
  show ?case
  proof (cases "f \<in> fst ` set ps")
    case True
    then have "map_of (rev ps) f = Some v"
      using "2.prems"(2) by (auto simp: map_add_Some_iff map_of_eq_None_iff)
    then show ?thesis using "2.IH" "2.prems"(1) by simp
  next
    case False
    then have "map_of (rev ps) f = None" by (simp add: map_of_eq_None_iff)
    then have "k = f \<and> v' = v"
      using "2.prems"(2) by (auto simp: map_add_Some_iff split: if_splits)
    then show ?thesis
      using False "2.prems"(1) by (simp add: apply_patch_other map_of_set_attr)
  qed
qed

subsection \<open>Where failures of the collaborator go\<close>

text \<open>
  The eight handlers that make all their calls inside \<open>try\<close> always send a response.
  A list handler rejects exactly when \<open>count()\<close> fails, and then with the message of
  that failure; a failure of \<open>findAll\<close> is answered with status 500.
\<close>

lemma guarded_handlers_always_respond:
  assumes "h \<in> {createStudent, getStudentById, updateStudent, deleteStudent,
                 createTeacher, getTeacherById, updateTeacher, deleteTeacher}"
  shows "\<exists>r. fst (h P req w) = Responded r"
  using assms
  by (auto simp: createStudent_def getStudentById_def updateStudent_def deleteStudent_def
        createTeacher_def getTeacherById_def updateTeacher_def deleteTeacher_def
        split: prod.splits sum.splits option.splits)

lemma list_handlers_reject_iff_count_fails:
  assumes "h = getAllStudents \<or> h = getAllTeachers"
  shows "fst (h P req w) = Rejected e \<longleftrightarrow> count P Course (store w) = Inl e"
  using assms
  by (auto simp: getAllStudents_run getAllTeachers_run Let_def split: sum.splits)

lemma list_handlers_answer_findAll_failure:
  assumes "(m, h) = (Student, getAllStudents) \<or> (m, h) = (Teacher, getAllTeachers)"
      and "fst (h P req w) = Responded r" and "status r = 500"
  shows "\<exists>opts e. findAll P m opts (store w) = Inl e \<and> json r = Error e"
  using assms
  by (auto simp: getAllStudents_run getAllTeachers_run Let_def split: sum.splits) blast+

lemma findAll_calls_list:
  assumes "h = getAllStudents \<or> h = getAllTeachers"
      and "FindAll m opts \<in> set (calls_of (h P req) s)"
  shows "opts = \<lparr>include_list = (if populate_names_course req then [Course] else []),
            limit = effective_limit req,
            offset = (effective_page req - 1) * effective_limit req,
            order = [(or_str (q_sortBy (query req)) ''id'',
                      or_str (q_order (query req)) ''asc'')]\<rparr>"
  using assms(1)
proof
  assume "h = getAllStudents"
  with assms(2) have "FindAll m opts \<in> set (calls_of (getAllStudents P req) s)" by simp
  then show ?thesis by (simp add: findAll_calls_students)
next
  assume "h = getAllTeachers"
  with assms(2) have "FindAll m opts \<in> set (calls_of (getAllTeachers P req) s)" by simp
  then show ?thesis by (simp add: findAll_calls_teachers)
qed

lemma list_answer_page:
  assumes "h = getAllStudents \<or> h = getAllTeachers"
      and "fst (h P req w) = Responded r"
      and "json r = Listing mt rows"
  shows "page mt = effective_page req"
  using assms
  by (auto simp: Let_def getAllStudents_run getAllTeachers_run split: sum.splits)

lemma list_run_cong:
  assumes "effective_page req' = effective_page req"
      and "effective_limit req' = effective_limit req"
      and "q_sortBy (query req') = q_sortBy (query req)"
      and "q_order (query req') = q_order (query req)"
      and "q_populate (query req') = q_populate (query req)"
  shows "getAllStudents P req' w = getAllStudents P req w"
    and "getAllTeachers P req' w = getAllTeachers P req w"
  unfolding getAllStudents_run getAllTeachers_run populate_names_course_def assms
  by (rule refl)+

lemma list_succeeds_when_collaborator_does:
  assumes "h = getAllStudents \<or> h = getAllTeachers"
      and "count P Course (store w) = Inr n"
      and "\<forall>m opts. \<exists>rows. findAll P m opts (store w) = Inr rows"
  shows "\<exists>r. fst (h P req w) = Responded r \<and> status r = 200"
proof -
  let ?opts = "\<lambda>m. \<lparr>include_list = (if populate_names_course req then [Course] else []),
                       limit = effective_limit req,
                       offset = (effective_page req - 1) * effective_limit req,
                       order = [(or_str (q_sortBy (query req)) ''id'',
                                 or_str (q_order (query req)) ''asc'')]\<rparr>"
  obtain rs where s: "findAll P Student (?opts Student) (store w) = Inr rs"
    using assms(3) by blast
  obtain rt where t: "findAll P Teacher (?opts Teacher) (store w) = Inr rt"
    using assms(3) by blast
  show ?thesis
    using assms(1,2) s t by (auto simp: getAllStudents_run getAllTeachers_run Let_def)
qed

lemmas parse_simps = parseInt_def isWhiteSpace_def isRadixDigit_def digitVal_def digitsValue_def

lemmas list_eval = getAllStudents_run getAllTeachers_run calls_of_def answering_db_def
  list_request_def plain_request_def effective_page_def effective_limit_def
  populate_names_course_def split_comma_def Let_def

subsection \<open>The claims\<close>

text \<open>
  C1. Every failure of the persistence collaborator is caught in the handler and
  answered with status 500 and the error message; in particular a failure of
  \<open>count()\<close> in the list operation. The list handlers do not do that: they await
  \<open>db.Course.count()\<close> before their \<open>try\<close> block. With a collaborator that cannot
  be reached, both list handlers reject with the error and send no response, where
  the create handler, which calls inside \<open>try\<close>, answers 500.
\<close>

theorem count_failure_escapes_list_handlers:
  "fst (getAllStudents (unreachable_db ''db down'' :: (unit, unit) persistence)
          (plain_request []) \<lparr>store = (), calls = []\<rparr>) = Rejected ''db down'' \<and>
   fst (getAllTeachers (unreachable_db ''db down'' :: (unit, unit) persistence)
          (plain_request []) \<lparr>store = (), calls = []\<rparr>) = Rejected ''db down'' \<and>
   fst (createStudent (unreachable_db ''db down'' :: (unit, unit) persistence)
          (plain_request []) \<lparr>store = (), calls = []\<rparr>)
     = Responded \<lparr>status = 500, json = Error ''db down''\<rparr>"
  by (simp add: getAllStudents_run getAllTeachers_run createStudent_def db_create_def
        unreachable_db_def)



text \<open>
  C3. In a list request the Course relation is joined exactly when the populate
  parameter, split on commas, has the element \<open>Course\<close>: every \<open>findAll\<close> a list
  handler issues has the include list \<open>[Course]\<close> then, and the empty include list
  otherwise, in particular when populate is absent.
\<close>

theorem populate_decides_course_join:
  "(\<forall>m opts. FindAll m opts \<in> set (calls_of (getAllStudents P req) s) \<union>
                               set (calls_of (getAllTeachers P req) s) \<longrightarrow>
      include_list opts = (if populate_names_course req then [Course] else []) \<and>
      (q_populate (query req) = None \<longrightarrow> include_list opts = [])) \<and>
   ((\<exists>n. count P Course s = Inr n) \<longrightarrow>
      (\<exists>opts. calls_of (getAllStudents P req) s = [Count Course, FindAll Student opts]) \<and>
      (\<exists>opts. calls_of (getAllTeachers P req) s = [Count Course, FindAll Teacher opts]))"
proof (intro conjI allI impI)
  fix m opts
  assume "FindAll m opts \<in> set (calls_of (getAllStudents P req) s) \<union>
                            set (calls_of (getAllTeachers P req) s)"
  then show "include_list opts = (if populate_names_course req then [Course] else [])"
    by (auto dest!: findAll_calls_students findAll_calls_teachers)
  then show "include_list opts = []" if "q_populate (query req) = None"
    using that by (simp add: populate_names_course_def)
next
  assume "\<exists>n. count P Course s = Inr n"
  then show "\<exists>opts. calls_of (getAllStudents P req) s = [Count Course, FindAll Student opts]"
    and "\<exists>opts. calls_of (getAllTeachers P req) s = [Count Course, FindAll Teacher opts]"
    using findAll_issued [of P s _ req] by blast+
qed

theorem populate_decides_course_join_witness:
  "calls_of (getAllTeachers (answering_db 0 0 [] None :: (unit, unit) persistence)
      (list_request None None (Some ''Teacher,Course''))) ()
     = [Count Course,
        FindAll Teacher \<lparr>include_list = [Course], limit = 10, offset = 0,
                          order = [(''id'', ''asc'')]\<rparr>] \<and>
   calls_of (getAllStudents (answering_db 0 0 [] None :: (unit, unit) persistence)
      (list_request None None (Some ''Courses''))) ()
     = [Count Course,
        FindAll Student \<lparr>include_list = [], limit = 10, offset = 0,
                          order = [(''id'', ''asc'')]\<rparr>]"
  using populate_decides_course_join [where
      P = "answering_db 0 0 [] None :: (unit, unit) persistence"
      and req = "list_request None None (Some ''Teacher,Course'')" and s = "()"]
  by (simp add: list_eval parse_simps)

text \<open>
  C4. A get-by-id request, for students or teachers, makes one call to the
  collaborator: the lookup of the id of the path with the Course relation joined,
  whatever query \<open>q\<close> (and so whatever populate parameter) the request holds.
\<close>

theorem get_by_id_always_joins_course:
  "calls_of (getStudentById P (req\<lparr>query := q\<rparr>)) s
     = [FindByPk Student (params_id req) (Some Course)] \<and>
   calls_of (getTeacherById P (req\<lparr>query := q\<rparr>)) s
     = [FindByPk Teacher (params_id req) (Some Course)]"
  by (simp add: calls_of_def getStudentById_def getTeacherById_def db_findByPk_def
        split: sum.splits option.splits)

text \<open>
  C5. Every \<open>findAll\<close> a list handler issues asks for as many records as the
  effective limit \<open>l\<close>, at the offset \<open>(p - 1) * l\<close> for the effective page \<open>p\<close>.
\<close>

theorem list_limit_and_offset:
  "(\<forall>m opts. FindAll m opts \<in> set (calls_of (getAllStudents P req) s) \<union>
                               set (calls_of (getAllTeachers P req) s) \<longrightarrow>
      limit opts = effective_limit req \<and>
      offset opts = (effective_page req - 1) * effective_limit req) \<and>
   ((\<exists>n. count P Course s = Inr n) \<longrightarrow>
      (\<exists>opts. calls_of (getAllStudents P req) s = [Count Course, FindAll Student opts]) \<and>
      (\<exists>opts. calls_of (getAllTeachers P req) s = [Count Course, FindAll Teacher opts]))"
proof (intro conjI allI impI)
  fix m opts
  assume "FindAll m opts \<in> set (calls_of (getAllStudents P req) s) \<union>
                            set (calls_of (getAllTeachers P req) s)"
  then show "limit opts = effective_limit req"
    and "offset opts = (effective_page req - 1) * effective_limit req"
    by (auto dest!: findAll_calls_students findAll_calls_teachers)
next
  assume "\<exists>n. count P Course s = Inr n"
  then show "\<exists>opts. calls_of (getAllStudents P req) s = [Count Course, FindAll Student opts]"
    and "\<exists>opts. calls_of (getAllTeachers P req) s = [Count Course, FindAll Teacher opts]"
    using findAll_issued [of P s _ req] by blast+
qed

theorem list_limit_and_offset_witness:
  "effective_page (list_request (Some ''3'') (Some ''20'') None) = 3 \<and>
   effective_limit (list_request (Some ''3'') (Some ''20'') None) = 20 \<and>
   calls_of (getAllStudents (answering_db 0 0 [] None :: (unit, unit) persistence)
      (list_request (Some ''3'') (Some ''20'') None)) ()
     = [Count Course,
        FindAll Student \<lparr>include_list = [], limit = 20, offset = 40,
                          order = [(''id'', ''asc'')]\<rparr>]"
  using list_limit_and_offset [where
      P = "answering_db 0 0 [] None :: (unit, unit) persistence"
      and req = "list_request (Some ''3'') (Some ''20'') None" and s = "()"]
  by (simp add: list_eval parse_simps)

text \<open>
  C6. When the id of a get-by-id, update or delete request, for students or
  teachers, does not resolve to a record (the lookup answers with no record), the
  handler answers 404 with the message \<open>Not found\<close>; the lookup is the only call it
  makes, so no patch is applied and nothing is destroyed, and the store is as before.
\<close>

theorem missing_record_is_404:
  assumes "(m, inc, h) \<in> {(Student, Some Course, getStudentById), (Student, None, updateStudent),
                            (Student, None, deleteStudent), (Teacher, Some Course, getTeacherById),
                            (Teacher, None, updateTeacher), (Teacher, None, deleteTeacher)}"
      and "findByPk P m (params_id req) inc (store w) = Inr None"
  shows "h P req w =
           (Responded \<lparr>status = 404, json = Message ''Not found''\<rparr>,
            \<lparr>store = store w, calls = calls w @ [FindByPk m (params_id req) inc]\<rparr>)"
  using assms
  by (auto simp: getStudentById_def updateStudent_def deleteStudent_def getTeacherById_def
        updateTeacher_def deleteTeacher_def db_findByPk_def)

theorem missing_record_is_404_witness:
  "deleteTeacher (store_db [''1'' \<mapsto> 1, ''99999'' \<mapsto> 99999]) (plain_request ''99999'')
      \<lparr>store = (\<lambda>m. [\<lparr>pk = 1, attrs = [(''name'', JStr ''Ann'')]\<rparr>]), calls = []\<rparr>
     = (Responded \<lparr>status = 404, json = Message ''Not found''\<rparr>,
        \<lparr>store = (\<lambda>m. [\<lparr>pk = 1, attrs = [(''name'', JStr ''Ann'')]\<rparr>]),
         calls = [FindByPk Teacher ''99999'' None]\<rparr>)"
proof -
  let ?P = "store_db [''1'' \<mapsto> 1, ''99999'' \<mapsto> 99999]"
  let ?req = "plain_request ''99999''"
  let ?w = "\<lparr>store = (\<lambda>m. [\<lparr>pk = 1, attrs = [(''name'', JStr ''Ann'')]\<rparr>]),
            calls = []\<rparr> :: (tables, inst) world"
  have h: "(Teacher, None, deleteTeacher)
             \<in> {(Student, Some Course, getStudentById), (Student, None, updateStudent),
                 (Student, None, deleteStudent), (Teacher, Some Course, getTeacherById),
                 (Teacher, None, updateTeacher), (Teacher, None, deleteTeacher)}"
    by simp
  have absent: "findByPk ?P Teacher (params_id ?req) None (store ?w) = Inr None"
    by (simp add: store_db_def store_lookup_def plain_request_def)
  show ?thesis
    using missing_record_is_404 [OF h absent] by (simp add: plain_request_def)
qed

text \<open>
  C7. An update request, for students or teachers, on an existing record answers 200
  with the full updated record; the attributes the patch does not name are as they
  were, the attributes it names have the values of the patch, the id is unchanged,
  and in the store the updated record stands in place of the old one, everything else
  being as before. (The store behind lookup and update is the one modelled from the
  spec.)
\<close>

theorem update_changes_only_patched_fields:
  assumes "(m, h) = (Student, updateStudent) \<or> (m, h) = (Teacher, updateTeacher)"
      and "\<forall>i. findByPk P m i None = store_lookup resolve m i"
      and "update P = store_update"
      and "resolve (params_id req) = Some k"
      and "find (\<lambda>x. pk x = k) (store w m) = Some r"
  shows "\<exists>r'. fst (h P req w)
                 = Responded \<lparr>status = 200, json = Instance \<lparr>of_model = m, stored = r'\<rparr>\<rparr>
            \<and> pk r' = pk r
            \<and> (\<forall>f. f \<notin> fst ` set (body req) \<longrightarrow> map_of (attrs r') f = map_of (attrs r) f)
            \<and> (\<forall>f v. f \<noteq> ''id'' \<and> map_of (rev (body req)) f = Some v
                       \<longrightarrow> map_of (attrs r') f = Some v)
            \<and> store (snd (h P req w))
                 = (store w)(m := map (\<lambda>x. if pk x = k then r' else x) (store w m))"
proof -
  let ?r' = "\<lparr>pk = pk r, attrs = apply_patch (attrs r) (body req)\<rparr>"
  have k: "pk r = k"
    using assms(5) by (auto simp: find_Some_iff)
  have look: "findByPk P m (params_id req) None (store w)
                = Inr (Some \<lparr>of_model = m, stored = r\<rparr>)"
    using assms(2,4,5) by (simp add: store_lookup_def)
  have run: "h P req w =
      (Responded \<lparr>status = 200, json = Instance \<lparr>of_model = m, stored = ?r'\<rparr>\<rparr>,
       \<lparr>store = (store w)(m := map (\<lambda>x. if pk x = k then ?r' else x) (store w m)),
        calls = calls w @ [FindByPk m (params_id req) None,
                           Update \<lparr>of_model = m, stored = r\<rparr> (body req)]\<rparr>)"
    using assms(1) look assms(3) k
    by (auto simp: updateStudent_def updateTeacher_def db_findByPk_def db_update_def
          store_update_def Let_def)
  show ?thesis
    apply (rule exI [of _ ?r'])
    using run by (simp add: apply_patch_other apply_patch_named)
qed

theorem update_changes_only_patched_fields_witness:
  "fst (updateStudent (store_db [''1'' \<mapsto> 1])
          \<lparr>params_id = ''1'',
           query = \<lparr>q_page = None, q_limit = None, q_sortBy = None, q_order = None,
                    q_populate = None\<rparr>,
           body = [(''name'', JStr ''X'')]\<rparr>
          \<lparr>store = (\<lambda>m. [\<lparr>pk = 1, attrs = [(''name'', JStr ''Ann''), (''age'', JNum 20)]\<rparr>]),
           calls = []\<rparr>)
     = Responded \<lparr>status = 200,
         json = Instance \<lparr>of_model = Student,
                  stored = \<lparr>pk = 1, attrs = [(''name'', JStr ''X''), (''age'', JNum 20)]\<rparr>\<rparr>\<rparr>"
proof -
  let ?P = "store_db [''1'' \<mapsto> 1]"
  let ?req = "\<lparr>params_id = ''1'',
           query = \<lparr>q_page = None, q_limit = None, q_sortBy = None, q_order = None,
                    q_populate = None\<rparr>,
           body = [(''name'', JStr ''X'')]\<rparr>"
  let ?r = "\<lparr>pk = 1, attrs = [(''name'', JStr ''Ann''), (''age'', JNum 20)]\<rparr>"
  let ?w = "\<lparr>store = (\<lambda>m. [?r]), calls = []\<rparr> :: (tables, inst) world"
  have h: "(Student, updateStudent) = (Student, updateStudent) \<or>
           (Student, updateStudent) = (Teacher, updateTeacher)"
    by simp
  have lookup: "\<forall>i. findByPk ?P Student i None = store_lookup [''1'' \<mapsto> 1] Student i"
    by (simp add: store_db_def)
  have upd: "update ?P = store_update"
    by (simp add: store_db_def)
  have res: "[''1'' \<mapsto> 1::nat] (params_id ?req) = Some 1"
    by simp
  have found: "find (\<lambda>x. pk x = 1) (store ?w Student) = Some ?r"
    by simp
  obtain r' where sent: "fst (updateStudent ?P ?req ?w)
        = Responded \<lparr>status = 200, json = Instance \<lparr>of_model = Student, stored = r'\<rparr>\<rparr>"
    using update_changes_only_patched_fields [OF h lookup upd res found] by blast
  then show ?thesis
    by (simp add: store_db_def store_lookup_def store_update_def updateStudent_def
          db_findByPk_def db_update_def Let_def)
qed

text \<open>
  C8. In a list request without \<open>sortBy\<close> the sort column passed to the collaborator
  is \<open>id\<close>, and without \<open>order\<close> the direction passed is the lower-case \<open>asc\<close>;
  with neither, the order argument is \<open>[['id', 'asc']]\<close>. (The claim has the
  upper-case \<open>ASC\<close>; the handlers pass the literal \<open>'asc'\<close>, which is ascending all
  the same.)
\<close>

theorem default_sort_is_id_asc:
  "(\<forall>m opts. FindAll m opts \<in> set (calls_of (getAllStudents P req) s) \<union>
                               set (calls_of (getAllTeachers P req) s) \<longrightarrow>
      (\<exists>c d. order opts = [(c, d)] \<and>
         (q_sortBy (query req) = None \<longrightarrow> c = ''id'') \<and>
         (q_order (query req) = None \<longrightarrow> d = ''asc''))) \<and>
   ((\<exists>n. count P Course s = Inr n) \<longrightarrow>
      (\<exists>opts. calls_of (getAllStudents P req) s = [Count Course, FindAll Student opts]) \<and>
      (\<exists>opts. calls_of (getAllTeachers P req) s = [Count Course, FindAll Teacher opts]))"
proof (intro conjI allI impI)
  fix m opts
  assume "FindAll m opts \<in> set (calls_of (getAllStudents P req) s) \<union>
                            set (calls_of (getAllTeachers P req) s)"
  then have "order opts = [(or_str (q_sortBy (query req)) ''id'',
                            or_str (q_order (query req)) ''asc'')]"
    by (auto dest!: findAll_calls_students findAll_calls_teachers)
  then show "\<exists>c d. order opts = [(c, d)] \<and>
         (q_sortBy (query req) = None \<longrightarrow> c = ''id'') \<and>
         (q_order (query req) = None \<longrightarrow> d = ''asc'')"
    by simp
next
  assume "\<exists>n. count P Course s = Inr n"
  then show "\<exists>opts. calls_of (getAllStudents P req) s = [Count Course, FindAll Student opts]"
    and "\<exists>opts. calls_of (getAllTeachers P req) s = [Count Course, FindAll Teacher opts]"
    using findAll_issued [of P s _ req] by blast+
qed

theorem default_sort_is_id_asc_witness:
  "calls_of (getAllTeachers (answering_db 0 0 [] None :: (unit, unit) persistence)
      (plain_request [])) ()
     = [Count Course,
        FindAll Teacher \<lparr>include_list = [], limit = 10, offset = 0,
                          order = [(''id'', ''asc'')]\<rparr>]"
  using default_sort_is_id_asc [where
      P = "answering_db 0 0 [] None :: (unit, unit) persistence"
      and req = "plain_request []" and s = "()"]
  by (simp add: list_eval parse_simps)

text \<open>The claim as it stands fails on a request with no query parameter at all: the
  order argument of the one \<open>findAll\<close> is \<open>[['id', 'asc']]\<close>, not \<open>[['id', 'ASC']]\<close>.\<close>

theorem default_order_is_not_upper_case:
  "calls_of (getAllStudents (answering_db 0 0 [] None :: (unit, unit) persistence)
      (plain_request [])) ()
     = [Count Course,
        FindAll Student \<lparr>include_list = [], limit = 10, offset = 0,
                          order = [(''id'', ''asc'')]\<rparr>] \<and>
   calls_of (getAllStudents (answering_db 0 0 [] None :: (unit, unit) persistence)
      (plain_request [])) ()
     \<noteq> [Count Course,
        FindAll Student \<lparr>include_list = [], limit = 10, offset = 0,
                          order = [(''id'', ''ASC'')]\<rparr>]"
  by (simp add: list_eval parse_simps)

text \<open>
  C9. A list request from whose page \<open>parseInt\<close> reads no integer (the parameter is
  absent, or after leading white space and one sign it does not start with a digit)
  has the effective page 1: it runs exactly as the request with page 1, every
  \<open>findAll\<close> issued has offset 0 and the answer has page 1. One from whose limit
  no integer is read has the effective limit 10 in the same way. A parameter with a
  leading integer other than 0 is used as parsed, whatever follows the digits. The
  parsing is no source of errors: the \<open>findAll\<close> is issued whenever the count
  succeeded, and an answer other than 200 is the 500 of a failed \<open>findAll\<close>.
  (The claim has the fall-back for every non-numeric page or limit; a text with a
  leading integer, such as \<open>12abc\<close>, is not numeric and is used as 12.)
\<close>

theorem unparsable_paging_falls_back:
  assumes "(m, h) = (Student, getAllStudents) \<or> (m, h) = (Teacher, getAllTeachers)"
  shows "(non_numeric (q_page (query req)) \<longrightarrow>
            effective_page req = 1 \<and>
            h P req w = h P (req\<lparr>query := (query req)\<lparr>q_page := Some ''1''\<rparr>\<rparr>) w \<and>
            (\<forall>m' opts. FindAll m' opts \<in> set (calls_of (h P req) (store w)) \<longrightarrow>
               offset opts = 0) \<and>
            (\<forall>r mt rows. fst (h P req w) = Responded r \<and> json r = Listing mt rows \<longrightarrow>
               page mt = 1)) \<and>
         (non_numeric (q_limit (query req)) \<longrightarrow>
            effective_limit req = 10 \<and>
            h P req w = h P (req\<lparr>query := (query req)\<lparr>q_limit := Some ''10''\<rparr>\<rparr>) w \<and>
            (\<forall>m' opts. FindAll m' opts \<in> set (calls_of (h P req) (store w)) \<longrightarrow>
               limit opts = 10 \<and> offset opts = (effective_page req - 1) * 10)) \<and>
         (\<forall>n. n \<noteq> 0 \<and> parseInt (ToString (q_page (query req))) = Num n \<longrightarrow>
            effective_page req = n) \<and>
         (\<forall>n. n \<noteq> 0 \<and> parseInt (ToString (q_limit (query req))) = Num n \<longrightarrow>
            effective_limit req = n) \<and>
         (\<forall>n. count P Course (store w) = Inr n \<longrightarrow>
            (\<exists>opts. calls_of (h P req) (store w) = [Count Course, FindAll m opts])) \<and>
         (\<forall>r. fst (h P req w) = Responded r \<longrightarrow>
            status r = 200 \<or>
            (\<exists>opts e. findAll P m opts (store w) = Inl e \<and>
                      r = \<lparr>status = 500, json = Error e\<rparr>)) \<and>
         ((\<exists>n. count P Course (store w) = Inr n) \<and>
          (\<forall>m' opts. \<exists>rows. findAll P m' opts (store w) = Inr rows) \<longrightarrow>
            (\<exists>r. fst (h P req w) = Responded r \<and> status r = 200))"
proof -
  have hh: "h = getAllStudents \<or> h = getAllTeachers"
    using assms by auto
  have opts_of: "opts = \<lparr>include_list = (if populate_names_course req then [Course] else []),
            limit = effective_limit req,
            offset = (effective_page req - 1) * effective_limit req,
            order = [(or_str (q_sortBy (query req)) ''id'',
                      or_str (q_order (query req)) ''asc'')]\<rparr>"
    if "FindAll m' opts \<in> set (calls_of (h P req) (store w))" for m' opts
    using hh that by (rule findAll_calls_list)
  have page_part: "effective_page req = 1 \<and>
            h P req w = h P (req\<lparr>query := (query req)\<lparr>q_page := Some ''1''\<rparr>\<rparr>) w \<and>
            (\<forall>m' opts. FindAll m' opts \<in> set (calls_of (h P req) (store w)) \<longrightarrow>
               offset opts = 0) \<and>
            (\<forall>r mt rows. fst (h P req w) = Responded r \<and> json r = Listing mt rows \<longrightarrow>
               page mt = 1)"
    if nn: "non_numeric (q_page (query req))"
  proof (intro conjI allI impI)
    show p: "effective_page req = 1"
      using nn by (simp add: non_numeric_def effective_page_def)
    let ?req = "req\<lparr>query := (query req)\<lparr>q_page := Some ''1''\<rparr>\<rparr>"
    have "effective_page ?req = effective_page req"
      using p by (simp add: effective_page_def parseInt_1)
    moreover have "effective_limit ?req = effective_limit req"
      by (simp add: effective_limit_def)
    ultimately show "h P req w = h P ?req w"
      using hh list_run_cong [of ?req req P w] by auto
    show "offset opts = 0"
      if "FindAll m' opts \<in> set (calls_of (h P req) (store w))" for m' opts
      using opts_of [OF that] p by simp
    show "page mt = 1"
      if "fst (h P req w) = Responded r \<and> json r = Listing mt rows" for r mt rows
      using that hh p list_answer_page [of h P req w r mt rows] by simp
  qed
  have limit_part: "effective_limit req = 10 \<and>
            h P req w = h P (req\<lparr>query := (query req)\<lparr>q_limit := Some ''10''\<rparr>\<rparr>) w \<and>
            (\<forall>m' opts. FindAll m' opts \<in> set (calls_of (h P req) (store w)) \<longrightarrow>
               limit opts = 10 \<and> offset opts = (effective_page req - 1) * 10)"
    if nn: "non_numeric (q_limit (query req))"
  proof (intro conjI allI impI)
    show l: "effective_limit req = 10"
      using nn by (simp add: non_numeric_def effective_limit_def)
    let ?req = "req\<lparr>query := (query req)\<lparr>q_limit := Some ''10''\<rparr>\<rparr>"
    have "effective_limit ?req = effective_limit req"
      using l by (simp add: effective_limit_def parseInt_10)
    moreover have "effective_page ?req = effective_page req"
      by (simp add: effective_page_def)
    ultimately show "h P req w = h P ?req w"
      using hh list_run_cong [of ?req req P w] by auto
    show "limit opts = 10"
      if "FindAll m' opts \<in> set (calls_of (h P req) (store w))" for m' opts
      using opts_of [OF that] l by simp
    show "offset opts = (effective_page req - 1) * 10"
      if "FindAll m' opts \<in> set (calls_of (h P req) (store w))" for m' opts
      using opts_of [OF that] l by simp
  qed
  have parsed_page: "effective_page req = n"
    if "n \<noteq> 0 \<and> parseInt (ToString (q_page (query req))) = Num n" for n
    using that by (simp add: effective_page_def)
  have parsed_limit: "effective_limit req = n"
    if "n \<noteq> 0 \<and> parseInt (ToString (q_limit (query req))) = Num n" for n
    using that by (simp add: effective_limit_def)
  have issued: "\<exists>opts. calls_of (h P req) (store w) = [Count Course, FindAll m opts]"
    if "count P Course (store w) = Inr n" for n
    using assms findAll_issued [OF that, of req] by auto
  have answers: "status r = 200 \<or>
            (\<exists>opts e. findAll P m opts (store w) = Inl e \<and>
                      r = \<lparr>status = 500, json = Error e\<rparr>)"
    if sent: "fst (h P req w) = Responded r" for r
  proof (cases "status r = 200")
    case True
    then show ?thesis by simp
  next
    case False
    have five: "status r = 500"
      using hh sent False
      by (auto simp: getAllStudents_run getAllTeachers_run Let_def split: sum.splits)
    obtain opts e where "findAll P m opts (store w) = Inl e" and "json r = Error e"
      using list_handlers_answer_findAll_failure [OF assms sent five] by blast
    then show ?thesis
      using five by (cases r) auto
  qed
  have succeeds: "\<exists>r. fst (h P req w) = Responded r \<and> status r = 200"
    if "(\<exists>n. count P Course (store w) = Inr n) \<and>
        (\<forall>m' opts. \<exists>rows. findAll P m' opts (store w) = Inr rows)"
    using that hh list_succeeds_when_collaborator_does [of h P w _ req] by blast
  show ?thesis
    using page_part limit_part parsed_page parsed_limit issued answers succeeds
    by (intro conjI impI allI) blast+
qed

theorem unparsable_paging_falls_back_witness:
  "non_numeric (Some ''abc'') \<and> non_numeric (Some '''') \<and>
   getAllStudents (answering_db 25 7 [] None :: (unit, unit) persistence)
      (list_request (Some ''abc'') (Some '''') None) \<lparr>store = (), calls = []\<rparr>
     = (Responded \<lparr>status = 200,
          json = Listing \<lparr>totalItems = 25, page = 1, totalPages = 3\<rparr> []\<rparr>,
        \<lparr>store = (),
         calls = [Count Course,
                  FindAll Student \<lparr>include_list = [], limit = 10, offset = 0,
                                    order = [(''id'', ''asc'')]\<rparr>]\<rparr>)"
proof -
  have h: "(Student, getAllStudents) = (Student, getAllStudents) \<or>
           (Student, getAllStudents) = (Teacher, getAllTeachers)"
    by simp
  show ?thesis
    using unparsable_paging_falls_back [OF h, where
        P = "answering_db 25 7 [] None :: (unit, unit) persistence"
        and req = "list_request (Some ''abc'') (Some '''') None"
        and w = "\<lparr>store = (), calls = []\<rparr>"]
    by (simp add: list_eval parse_simps non_numeric_def)
qed

text \<open>The claim as it stands fails on the page \<open>12abc\<close>, which is not the text of a
  number: \<open>parseInt\<close> reads 12 from it, so the request is answered as page 12, with
  offset 110, and not as page 1.\<close>

theorem leading_integer_page_is_used:
  "\<not> numeric_text ''12abc'' \<and>
   effective_page (list_request (Some ''12abc'') None None) = 12 \<and>
   getAllStudents (answering_db 25 7 [] None :: (unit, unit) persistence)
      (list_request (Some ''12abc'') None None) \<lparr>store = (), calls = []\<rparr>
     = (Responded \<lparr>status = 200,
          json = Listing \<lparr>totalItems = 25, page = 12, totalPages = 3\<rparr> []\<rparr>,
        \<lparr>store = (),
         calls = [Count Course,
                  FindAll Student \<lparr>include_list = [], limit = 10, offset = 110,
                                    order = [(''id'', ''asc'')]\<rparr>]\<rparr>) \<and>
   getAllStudents (answering_db 25 7 [] None :: (unit, unit) persistence)
      (list_request (Some ''12abc'') None None) \<lparr>store = (), calls = []\<rparr>
     \<noteq> getAllStudents (answering_db 25 7 [] None :: (unit, unit) persistence)
      (list_request (Some ''1'') None None) \<lparr>store = (), calls = []\<rparr>"
  by (simp add: list_eval parse_simps numeric_text_def decimal_digit_def)



end
